theory Spec2Isabelle
  imports Main "HOL-Library.AList"
begin

section \<open>Run configuration (ExecutionOrchestrator.ts, lines 24-52)\<close>

text \<open>
  \<^verbatim>\<open>OrchestrationConfig\<close> has seven fields. The constructor takes a
  \<^verbatim>\<open>Partial<OrchestrationConfig>\<close>, in which every key may be absent, and builds
  \<^verbatim>\<open>{ timeoutSeconds: 600, maxRetries: 2, backupEnabled: true, validationEnabled: true,
     rollbackOnFailure: true, continueOnValidationFailure: false, dryRun: false, ...config }\<close>.
  An absent key is \<open>None\<close>, a supplied one is \<open>Some v\<close>; the object spread lets a supplied
  key win over the literal written before it.
\<close>

record OrchestrationConfig =
  timeoutSeconds :: int
  maxRetries :: int
  backupEnabled :: bool
  validationEnabled :: bool
  rollbackOnFailure :: bool
  continueOnValidationFailure :: bool
  dryRun :: bool

record PartialConfig =
  timeoutSeconds_opt :: "int option"
  maxRetries_opt :: "int option"
  backupEnabled_opt :: "bool option"
  validationEnabled_opt :: "bool option"
  rollbackOnFailure_opt :: "bool option"
  continueOnValidationFailure_opt :: "bool option"
  dryRun_opt :: "bool option"

definition emptyPartial :: PartialConfig where
  "emptyPartial = \<lparr> timeoutSeconds_opt = None, maxRetries_opt = None,
     backupEnabled_opt = None, validationEnabled_opt = None, rollbackOnFailure_opt = None,
     continueOnValidationFailure_opt = None, dryRun_opt = None \<rparr>"

definition spread :: "'a \<Rightarrow> 'a option \<Rightarrow> 'a" where
  "spread dflt supplied = (case supplied of None \<Rightarrow> dflt | Some v \<Rightarrow> v)"

definition mergeConfig :: "PartialConfig \<Rightarrow> OrchestrationConfig" where
  "mergeConfig p = \<lparr>
     timeoutSeconds = spread 600 (timeoutSeconds_opt p),
     maxRetries = spread 2 (maxRetries_opt p),
     backupEnabled = spread True (backupEnabled_opt p),
     validationEnabled = spread True (validationEnabled_opt p),
     rollbackOnFailure = spread True (rollbackOnFailure_opt p),
     continueOnValidationFailure = spread False (continueOnValidationFailure_opt p),
     dryRun = spread False (dryRun_opt p) \<rparr>"

section \<open>Strings (JavaScript string operations used by the sources)\<close>





text \<open>\<^verbatim>\<open>s.includes(sub)\<close>: \<open>sub\<close> occurs in \<open>s\<close> at some offset.\<close>

primrec includesStr :: "string \<Rightarrow> string \<Rightarrow> bool" where
  "includesStr [] sub = (sub = [])"
| "includesStr (x # xs) sub = (take (length sub) (x # xs) = sub \<or> includesStr xs sub)"

text \<open>
  \<^verbatim>\<open>s.split(sep)\<close> for a one-character separator. The result is never empty (the empty
  string gives one empty piece), so the last case below is never taken.
\<close>

primrec splitOn :: "char \<Rightarrow> string \<Rightarrow> string list" where
  "splitOn sep [] = [[]]"
| "splitOn sep (x # xs) =
     (if x = sep then [] # splitOn sep xs
      else (case splitOn sep xs of
              piece # pieces \<Rightarrow> (x # piece) # pieces
            | [] \<Rightarrow> [[x]]))"

text \<open>A non-negative integer inside a template literal: its decimal digits.\<close>

definition digitChar :: "nat \<Rightarrow> char" where
  "digitChar d = ''0123456789'' ! d"

fun showNat :: "nat \<Rightarrow> string" where
  "showNat n = (if n < 10 then [digitChar n] else showNat (n div 10) @ [digitChar (n mod 10)])"

declare showNat.simps [simp del]



text \<open>
  \<^verbatim>\<open>path.basename(p)\<close> with the POSIX separator: trailing separators are dropped and the
  part after the last remaining separator is returned.
\<close>

definition basename :: "string \<Rightarrow> string" where
  "basename p =
     rev (takeWhile (\<lambda>c. c \<noteq> CHR ''/'') (dropWhile (\<lambda>c. c = CHR ''/'') (rev p)))"

text \<open>\<^verbatim>\<open>[...new Set(xs)]\<close>: the distinct elements in the order of their first occurrence.\<close>

primrec uniq :: "'a list \<Rightarrow> 'a list" where
  "uniq [] = []"
| "uniq (x # xs) = x # filter (\<lambda>y. y \<noteq> x) (uniq xs)"

section \<open>Diagnostics and analyzed errors\<close>

text \<open>
  Modelled from the spec: the module \<^verbatim>\<open>./ErrorAnalyzer\<close>, which declares \<^verbatim>\<open>ErrorRootCause\<close>
  and \<^verbatim>\<open>AnalyzedError\<close>, is not among the sources. The orchestrator uses the members
  \<^verbatim>\<open>SYNTAX\<close>, \<^verbatim>\<open>IMPORT\<close> and \<^verbatim>\<open>TYPE\<close> and reads \<^verbatim>\<open>error.file\<close> and
  \<^verbatim>\<open>error.category.rootCause\<close>; the specification gives the variant as
  Syntax, Import, Type, Unused, Other (the names used here) and an analyzed error as a
  diagnostic (file, line, column, code, message) with a category (root cause, severity)
  and a priority. The field \<^verbatim>\<open>file\<close> is called \<open>file_path\<close> here.
\<close>

datatype ErrorRootCause = Syntax | Import | Type | Unused | Other

record ErrorCategory =
  rootCause :: ErrorRootCause
  severity :: string

record Diagnostic =
  file_path :: string
  line :: nat
  column :: nat
  code :: string
  message :: string

record AnalyzedError = Diagnostic +
  category :: ErrorCategory
  priority :: nat

section \<open>The world the orchestrator acts on\<close>

text \<open>
  The file system is the only shared mutable resource. \<open>files\<close> maps the path of a regular
  file of the project, written relative to \<^verbatim>\<open>process.cwd()\<close> and normalised, to its
  content. \<open>backupDir\<close> is the directory \<^verbatim>\<open>this.backupPath\<close> (a fresh directory named by the
  construction time under \<^verbatim>\<open>.error-fix-backups\<close>): \<open>None\<close> while it does not exist,
  otherwise its entries, name and content. Operations on this file system do not fail;
  the functions keep the result type of the source so that a rejected promise stays a
  branch of every caller.
\<close>

record world =
  files :: "string \<rightharpoonup> string"
  backupDir :: "(string \<times> string) list option"

definition fileExists :: "world \<Rightarrow> string \<Rightarrow> bool" where
  "fileExists w p = (files w p \<noteq> None)"

definition directoryExists :: "world \<Rightarrow> bool" where
  "directoryExists w = (backupDir w \<noteq> None)"

section \<open>Execution results and phases (ExecutionOrchestrator.ts, lines 7-22)\<close>

text \<open>
  \<open>executionTime\<close> and \<open>details\<close> are left out: they carry wall-clock time and free-form
  data that no control flow reads. An \<open>executeFunction\<close> is a promise-returning thunk: run
  in a state it yields the next state and either a rejection (\<open>Inl\<close> with the error's
  message) or an \<^verbatim>\<open>ExecutionResult\<close>.
\<close>

record ExecutionResult =
  success :: bool
  message :: string
  errorCount :: "nat option"
  fixedCount :: "nat option"

record 'w ExecutionPhase =
  name :: string
  priority :: nat
  timeout :: nat
  retries :: nat
  executeFunction :: "'w \<Rightarrow> (string + ExecutionResult) \<times> 'w"

definition mkResult :: "bool \<Rightarrow> string \<Rightarrow> ExecutionResult" where
  "mkResult ok msg = \<lparr> success = ok, ExecutionResult.message = msg,
     errorCount = None, fixedCount = None \<rparr>"

text \<open>
  \<^verbatim>\<open>executeWithTimeout\<close> races the thunk against a timer and rejects when the timer wins.
  Time is not modelled: an attempt that misses its deadline is an attempt whose outcome
  is \<open>Inl\<close>, so the outcome of the race is the outcome of the thunk.
\<close>

definition executeWithTimeout ::
  "('w \<Rightarrow> (string + ExecutionResult) \<times> 'w) \<Rightarrow> nat \<Rightarrow> 'w \<Rightarrow> (string + ExecutionResult) \<times> 'w" where
  "executeWithTimeout fn timeoutMs w = fn w"

text \<open>
  \<^verbatim>\<open>executePhaseWithRetry\<close>: the loop \<^verbatim>\<open>for (attempt = 1; attempt <= phase.retries + 1; attempt++)\<close>
  with its three exits, and the \<^verbatim>\<open>return\<close> after the loop.
\<close>

function retryLoop :: "'w ExecutionPhase \<Rightarrow> nat \<Rightarrow> 'w \<Rightarrow> ExecutionResult \<times> 'w" where
  "retryLoop phase attempt w =
     (if attempt \<le> retries phase + 1 then
        (case executeWithTimeout (executeFunction phase) (timeout phase) w of
           (Inr result, w') \<Rightarrow>
             if success result then (result, w')
             else if attempt = retries phase + 1 then (result, w')
             else retryLoop phase (attempt + 1) w'
         | (Inl msg, w') \<Rightarrow>
             if attempt = retries phase + 1
             then (mkResult False (name phase @ '' failed: '' @ msg), w')
             else retryLoop phase (attempt + 1) w')
      else (mkResult False (name phase @ '' exhausted all retry attempts''), w))"
  by pat_completeness auto
termination
  by (relation "measure (\<lambda>(phase, attempt, w). retries phase + 2 - attempt)") auto

declare retryLoop.simps [simp del]

definition executePhaseWithRetry :: "'w ExecutionPhase \<Rightarrow> 'w \<Rightarrow> ExecutionResult \<times> 'w" where
  "executePhaseWithRetry phase w = retryLoop phase 1 w"

text \<open>\<^verbatim>\<open>executePhase\<close>: a rejection is rethrown with the phase name in front.\<close>

definition executePhase ::
  "string \<Rightarrow> ('w \<Rightarrow> (string + ExecutionResult) \<times> 'w) \<Rightarrow> 'w \<Rightarrow> (string + ExecutionResult) \<times> 'w" where
  "executePhase phaseName fn w =
     (case fn w of
        (Inr result, w') \<Rightarrow> (Inr result, w')
      | (Inl msg, w') \<Rightarrow> (Inl (phaseName @ '' failed: '' @ msg), w'))"


section \<open>The orchestrator (ExecutionOrchestrator.ts, lines 34-425)\<close>

text \<open>
  The object's fields. \<open>backupPath\<close> is computed by the constructor from the working
  directory and the clock; here it is handed to the constructor.
\<close>

record orchestrator =
  config :: OrchestrationConfig
  executionHistory :: "ExecutionResult list"
  backupPath :: string

definition newOrchestrator :: "PartialConfig \<Rightarrow> string \<Rightarrow> orchestrator" where
  "newOrchestrator p bp = \<lparr> config = mergeConfig p, executionHistory = [], backupPath = bp \<rparr>"

subsection \<open>Backup and rollback\<close>

text \<open>\<^verbatim>\<open>fs.promises.mkdir(this.backupPath, { recursive: true })\<close>: an existing directory is kept.\<close>

definition mkdirBackup :: "world \<Rightarrow> world" where
  "mkdirBackup w = w\<lparr> backupDir := Some (case backupDir w of None \<Rightarrow> [] | Some es \<Rightarrow> es) \<rparr>"

text \<open>
  \<^verbatim>\<open>copyFile(file, path.join(this.backupPath, path.basename(file)))\<close>: the entry is named
  by the base name alone and an entry of that name is overwritten.
\<close>

definition copyToBackup :: "string \<Rightarrow> world \<Rightarrow> world" where
  "copyToBackup f w =
     (case files w f of
        None \<Rightarrow> w
      | Some content \<Rightarrow>
          w\<lparr> backupDir := Some (AList.update (basename f) content
                 (case backupDir w of None \<Rightarrow> [] | Some es \<Rightarrow> es)) \<rparr>)"

fun backupLoop :: "string list \<Rightarrow> world \<Rightarrow> nat \<Rightarrow> world \<times> nat" where
  "backupLoop [] w backedUpCount = (w, backedUpCount)"
| "backupLoop (f # fs) w backedUpCount =
     (if fileExists w f then backupLoop fs (copyToBackup f w) (backedUpCount + 1)
      else backupLoop fs w backedUpCount)"

definition createBackup ::
  "orchestrator \<Rightarrow> AnalyzedError list \<Rightarrow> world \<Rightarrow> (string + ExecutionResult) \<times> world" where
  "createBackup orch errors w =
     (let fs = uniq (map file_path errors) in
      if dryRun (config orch)
      then (Inr (mkResult True (''Dry run: Would backup '' @ showNat (length fs) @ '' files'')), w)
      else (case backupLoop fs (mkdirBackup w) 0 of
              (w', backedUpCount) \<Rightarrow>
                (Inr (mkResult True (''Backed up '' @ showNat backedUpCount @ '' files to ''
                        @ backupPath orch)), w')))"

text \<open>
  \<^verbatim>\<open>performRollback\<close>: every entry of the backup directory is copied to
  \<^verbatim>\<open>path.join(process.cwd(), backupFile)\<close>, the file of that name directly in the working
  directory, when such a file exists.
\<close>

fun restoreLoop :: "(string \<times> string) list \<Rightarrow> world \<Rightarrow> world" where
  "restoreLoop [] w = w"
| "restoreLoop ((backupFile, content) # es) w =
     (if fileExists w backupFile
      then restoreLoop es (w\<lparr> files := (files w)(backupFile \<mapsto> content) \<rparr>)
      else restoreLoop es w)"

definition performRollback :: "world \<Rightarrow> world" where
  "performRollback w =
     (if directoryExists w
      then restoreLoop (case backupDir w of None \<Rightarrow> [] | Some backupFiles \<Rightarrow> backupFiles) w
      else w)"

subsection \<open>The three fix routines\<close>

text \<open>
  The routines of the source are placeholders: outside a dry run they touch no file and
  report a fixed share of their errors as fixed (\<^verbatim>\<open>Math.floor(n * 0.8)\<close>, \<open>0.6\<close>, \<open>0.7\<close>; the
  share is computed here in exact arithmetic).
\<close>

definition simulatedFix ::
  "orchestrator \<Rightarrow> string \<Rightarrow> nat \<Rightarrow> AnalyzedError list \<Rightarrow> 'w \<Rightarrow> (string + ExecutionResult) \<times> 'w" where
  "simulatedFix orch kind tenths errors w =
     (if dryRun (config orch)
      then (Inr (mkResult True (''Dry run: Would fix '' @ showNat (length errors) @ '' ''
                   @ kind @ '' errors'')), w)
      else (Inr ((mkResult True (''Processed '' @ showNat (length errors) @ '' '' @ kind
                   @ '' errors''))
                 \<lparr> fixedCount := Some (min (length errors) (length errors * tenths div 10)) \<rparr>), w))"

definition executeSyntaxFixes ::
  "orchestrator \<Rightarrow> AnalyzedError list \<Rightarrow> 'w \<Rightarrow> (string + ExecutionResult) \<times> 'w" where
  "executeSyntaxFixes orch errors = simulatedFix orch ''syntax'' 8 errors"

definition executeImportFixes ::
  "orchestrator \<Rightarrow> AnalyzedError list \<Rightarrow> 'w \<Rightarrow> (string + ExecutionResult) \<times> 'w" where
  "executeImportFixes orch errors = simulatedFix orch ''import'' 6 errors"

definition executeTypeFixes ::
  "orchestrator \<Rightarrow> AnalyzedError list \<Rightarrow> 'w \<Rightarrow> (string + ExecutionResult) \<times> 'w" where
  "executeTypeFixes orch errors = simulatedFix orch ''type'' 7 errors"

subsection \<open>Planning the phases\<close>

text \<open>
  \<^verbatim>\<open>groupErrorsByRootCause\<close> builds a \<^verbatim>\<open>Map\<close> from root cause to the errors of that cause
  in input order. \<open>groupOf\<close> reads it the way the planner does: \<^verbatim>\<open>get(k)?.length\<close> is
  falsy for a missing key and for an empty list.
\<close>

definition addToGroup ::
  "(ErrorRootCause \<rightharpoonup> AnalyzedError list) \<Rightarrow> AnalyzedError \<Rightarrow> (ErrorRootCause \<rightharpoonup> AnalyzedError list)" where
  "addToGroup groups error =
     groups(rootCause (category error) \<mapsto>
       (case groups (rootCause (category error)) of None \<Rightarrow> [] | Some es \<Rightarrow> es) @ [error])"

definition groupErrorsByRootCause ::
  "AnalyzedError list \<Rightarrow> (ErrorRootCause \<rightharpoonup> AnalyzedError list)" where
  "groupErrorsByRootCause errors = foldl addToGroup Map.empty errors"

definition groupOf :: "(ErrorRootCause \<rightharpoonup> AnalyzedError list) \<Rightarrow> ErrorRootCause \<Rightarrow> AnalyzedError list" where
  "groupOf groups rc = (case groups rc of None \<Rightarrow> [] | Some es \<Rightarrow> es)"

definition createExecutionPhases :: "orchestrator \<Rightarrow> AnalyzedError list \<Rightarrow> 'w ExecutionPhase list" where
  "createExecutionPhases orch errors =
     (let errorsByRootCause = groupErrorsByRootCause errors in
      sort_key priority
        ((if groupOf errorsByRootCause Syntax \<noteq> []
          then [\<lparr> name = ''Syntax Fixes'', priority = 1, timeout = 300, retries = 2,
                  executeFunction = executeSyntaxFixes orch (groupOf errorsByRootCause Syntax) \<rparr>]
          else []) @
         (if groupOf errorsByRootCause Import \<noteq> []
          then [\<lparr> name = ''Import Fixes'', priority = 2, timeout = 180, retries = 1,
                  executeFunction = executeImportFixes orch (groupOf errorsByRootCause Import) \<rparr>]
          else []) @
         (if groupOf errorsByRootCause Type \<noteq> []
          then [\<lparr> name = ''Type Fixes'', priority = 3, timeout = 240, retries = 1,
                  executeFunction = executeTypeFixes orch (groupOf errorsByRootCause Type) \<rparr>]
          else [])))"

subsection \<open>Final validation\<close>

text \<open>
  \<^verbatim>\<open>execSync\<close> either returns the command's output or throws with the captured error
  output. The compiler is run with \<^verbatim>\<open>--noEmit\<close>: it reads the world and writes nothing.
\<close>

datatype ExecOutcome = Exited string | Failed string

definition performFinalValidation ::
  "(world \<Rightarrow> ExecOutcome) \<Rightarrow> world \<Rightarrow> (string + ExecutionResult) \<times> world" where
  "performFinalValidation tsc w =
     (case tsc w of
        Exited out \<Rightarrow>
          (Inr ((mkResult True ''TypeScript compilation successful - no errors found'')
                  \<lparr> errorCount := Some 0 \<rparr>), w)
      | Failed errorOutput \<Rightarrow>
          (let errorLines = filter (\<lambda>l. includesStr l '' - error TS'') (splitOn CHR 0x0A errorOutput)
           in (Inr ((mkResult (length errorLines = 0)
                       (''Validation found '' @ showNat (length errorLines) @ '' remaining errors''))
                      \<lparr> errorCount := Some (length errorLines) \<rparr>), w)))"

subsection \<open>The run\<close>

text \<open>
  The loop over the phases inside the \<^verbatim>\<open>try\<close> block: each result is pushed on the
  history; a failed result throws unless \<open>continueOnValidationFailure\<close> is set.
\<close>

fun runPhases ::
  "OrchestrationConfig \<Rightarrow> 'w ExecutionPhase list \<Rightarrow> ExecutionResult list \<Rightarrow> 'w
     \<Rightarrow> (string + unit) \<times> ExecutionResult list \<times> 'w" where
  "runPhases cfg [] history w = (Inr (), history, w)"
| "runPhases cfg (phase # phases) history w =
     (case executePhaseWithRetry phase w of
        (result, w') \<Rightarrow>
          if \<not> success result \<and> \<not> continueOnValidationFailure cfg
          then (Inl (''Phase '' @ name phase @ '' failed: '' @ ExecutionResult.message result),
                history @ [result], w')
          else runPhases cfg phases (history @ [result]) w')"

definition totalFixed :: "ExecutionResult list \<Rightarrow> nat" where
  "totalFixed history =
     foldl (\<lambda>sum result. sum + (case fixedCount result of None \<Rightarrow> 0 | Some n \<Rightarrow> n)) 0 history"

text \<open>
  The first and the last step of the \<^verbatim>\<open>try\<close> block, each behind its option. A step
  that is switched off leaves the state alone; its result is not used.
\<close>

definition backupStep ::
  "orchestrator \<Rightarrow> AnalyzedError list \<Rightarrow> world \<Rightarrow> (string + ExecutionResult) \<times> world" where
  "backupStep orch errors w =
     (if backupEnabled (config orch)
      then executePhase ''Backup Creation'' (createBackup orch errors) w
      else (Inr (mkResult True []), w))"

definition validationStep ::
  "(world \<Rightarrow> ExecOutcome) \<Rightarrow> orchestrator \<Rightarrow> world \<Rightarrow> (string + ExecutionResult) \<times> world" where
  "validationStep tsc orch w =
     (if validationEnabled (config orch)
      then executePhase ''Final Validation'' (performFinalValidation tsc) w
      else (Inr (mkResult True []), w))"

text \<open>
  The body of the \<^verbatim>\<open>try\<close> block: \<open>Inl\<close> is the message of the error it throws. The
  planner is a parameter; the source calls \<open>createExecutionPhases\<close>. The success message
  of the source ends with the elapsed seconds, which are not modelled.
\<close>

definition tryBlock ::
  "(AnalyzedError list \<Rightarrow> world ExecutionPhase list) \<Rightarrow> (world \<Rightarrow> ExecOutcome)
     \<Rightarrow> orchestrator \<Rightarrow> AnalyzedError list \<Rightarrow> world
     \<Rightarrow> (string + ExecutionResult) \<times> orchestrator \<times> world" where
  "tryBlock plan tsc orch errors w =
     (case backupStep orch errors w of
        (Inl msg, w1) \<Rightarrow> (Inl msg, orch, w1)
      | (Inr backupResult, w1) \<Rightarrow>
          (case runPhases (config orch) (plan errors) (executionHistory orch) w1 of
             (Inl msg, history, w2) \<Rightarrow> (Inl msg, orch\<lparr> executionHistory := history \<rparr>, w2)
           | (Inr u, history, w2) \<Rightarrow>
               (case validationStep tsc orch w2 of
                  (Inl msg, w3) \<Rightarrow> (Inl msg, orch\<lparr> executionHistory := history \<rparr>, w3)
                | (Inr validationResult, w3) \<Rightarrow>
                    (Inr ((mkResult True (''Orchestration completed successfully. Fixed ''
                             @ showNat (totalFixed history) @ '' errors''))
                          \<lparr> fixedCount := Some (totalFixed history) \<rparr>),
                     orch\<lparr> executionHistory := history \<rparr>, w3))))"

text \<open>
  \<^verbatim>\<open>executeOrchestration\<close>: the \<^verbatim>\<open>try\<close> block and its \<^verbatim>\<open>catch\<close>, which rolls back when
  \<open>rollbackOnFailure\<close> and \<open>backupEnabled\<close> are set and returns a failure.
\<close>

definition executeOrchestrationWith ::
  "(AnalyzedError list \<Rightarrow> world ExecutionPhase list) \<Rightarrow> (world \<Rightarrow> ExecOutcome)
     \<Rightarrow> orchestrator \<Rightarrow> AnalyzedError list \<Rightarrow> world
     \<Rightarrow> ExecutionResult \<times> orchestrator \<times> world" where
  "executeOrchestrationWith plan tsc orch errors w =
     (case tryBlock plan tsc orch errors w of
        (Inr result, orch', w') \<Rightarrow> (result, orch', w')
      | (Inl msg, orch', w') \<Rightarrow>
          (mkResult False (''Orchestration failed: '' @ msg), orch',
           if rollbackOnFailure (config orch) \<and> backupEnabled (config orch)
           then performRollback w' else w'))"

definition executeOrchestration ::
  "(world \<Rightarrow> ExecOutcome) \<Rightarrow> orchestrator \<Rightarrow> AnalyzedError list \<Rightarrow> world
     \<Rightarrow> ExecutionResult \<times> orchestrator \<times> world" where
  "executeOrchestration tsc orch errors w =
     executeOrchestrationWith (createExecutionPhases orch) tsc orch errors w"


section \<open>The validation engine (ValidationEngine, lines 428-766)\<close>

text \<open>
  A check names a shell command. \<open>message\<close>, \<open>details\<close>, \<open>executionTime\<close> and \<open>totalTime\<close>
  are left out: they are diagnostics derived from the command's output and the clock, and
  neither the loop nor the aggregation reads them. The shell is a parameter: run on a
  command, a timeout in milliseconds and a state, it gives the outcome of \<^verbatim>\<open>execSync\<close>
  and the next state (a command such as the build may write files).
\<close>

datatype CheckType = CSyntax | CLint | CBuild | CTest

record ValidationCheck =
  name :: string
  type :: CheckType
  command :: string
  timeout :: nat
  required :: bool

record ValidationResult =
  check :: ValidationCheck
  success :: bool

record ValidationSummary =
  overallSuccess :: bool
  totalChecks :: nat
  passedChecks :: nat
  failedChecks :: nat
  results :: "ValidationResult list"
  recommendations :: "string list"

definition defaultChecks :: "ValidationCheck list" where
  "defaultChecks =
     [\<lparr> ValidationCheck.name = ''TypeScript Compilation'', type = CSyntax,
        command = ''npx tsc --noEmit --skipLibCheck'', ValidationCheck.timeout = 60,
        required = True \<rparr>,
      \<lparr> ValidationCheck.name = ''ESLint Check'', type = CLint,
        command = ''npx eslint src --ext .ts,.tsx --max-warnings 0'',
        ValidationCheck.timeout = 30, required = False \<rparr>,
      \<lparr> ValidationCheck.name = ''Build Check'', type = CBuild,
        command = ''npm run build'', ValidationCheck.timeout = 120, required = False \<rparr>]"

definition runValidationCheck ::
  "(string \<Rightarrow> nat \<Rightarrow> 'w \<Rightarrow> ExecOutcome \<times> 'w) \<Rightarrow> ValidationCheck \<Rightarrow> 'w \<Rightarrow> ValidationResult \<times> 'w" where
  "runValidationCheck sh chk w =
     (case sh (command chk) (ValidationCheck.timeout chk * 1000) w of
        (Exited out, w') \<Rightarrow> (\<lparr> check = chk, ValidationResult.success = True \<rparr>, w')
      | (Failed errorOutput, w') \<Rightarrow> (\<lparr> check = chk, ValidationResult.success = False \<rparr>, w'))"

text \<open>The loop of \<^verbatim>\<open>validate\<close>, with its \<^verbatim>\<open>break\<close> after a failed required check.\<close>

fun validateLoop ::
  "(string \<Rightarrow> nat \<Rightarrow> 'w \<Rightarrow> ExecOutcome \<times> 'w) \<Rightarrow> ValidationCheck list \<Rightarrow> 'w
     \<Rightarrow> ValidationResult list \<times> 'w" where
  "validateLoop sh [] w = ([], w)"
| "validateLoop sh (chk # chks) w =
     (case runValidationCheck sh chk w of
        (result, w') \<Rightarrow>
          if \<not> ValidationResult.success result \<and> required chk then ([result], w')
          else (case validateLoop sh chks w' of (rs, w'') \<Rightarrow> (result # rs, w'')))"

text \<open>
  The recommendation texts start with an emoji in the source; it is written here as the
  bytes of its UTF-8 encoding.
\<close>

definition recSyntax :: string where
  "recSyntax = [CHR 0xF0, CHR 0x9F, CHR 0x94, CHR 0xA7] @
     '' Fix TypeScript syntax errors first - they prevent other tools from working properly''"

definition recLint :: string where
  "recLint = [CHR 0xF0, CHR 0x9F, CHR 0x93, CHR 0x9D] @
     '' Run ESLint with --fix flag to automatically fix common style issues''"

definition recBuild :: string where
  "recBuild = [CHR 0xF0, CHR 0x9F, CHR 0x8F, CHR 0x97, CHR 0xEF, CHR 0xB8, CHR 0x8F] @
     '' Build issues may indicate missing dependencies or configuration problems''"

definition recAllPassed :: string where
  "recAllPassed = [CHR 0xE2, CHR 0x9C, CHR 0x85] @
     '' All validation checks passed - project is in good shape!''"

fun recommendationsLoop :: "ValidationResult list \<Rightarrow> string list \<Rightarrow> string list" where
  "recommendationsLoop [] recs = recs"
| "recommendationsLoop (result # rs) recs =
     (if \<not> ValidationResult.success result then
        (case type (check result) of
           CSyntax \<Rightarrow> recommendationsLoop rs (recs @ [recSyntax])
         | CLint \<Rightarrow> recommendationsLoop rs (recs @ [recLint])
         | CBuild \<Rightarrow> recommendationsLoop rs (recs @ [recBuild])
         | CTest \<Rightarrow> recommendationsLoop rs recs)
      else recommendationsLoop rs recs)"

definition generateRecommendations :: "ValidationResult list \<Rightarrow> string list" where
  "generateRecommendations rs =
     (let recs = recommendationsLoop rs [] in
      if length recs = 0 then recs @ [recAllPassed] else recs)"

definition validate ::
  "(string \<Rightarrow> nat \<Rightarrow> 'w \<Rightarrow> ExecOutcome \<times> 'w) \<Rightarrow> ValidationCheck list \<Rightarrow> 'w
     \<Rightarrow> ValidationSummary \<times> 'w" where
  "validate sh checks w =
     (case validateLoop sh checks w of
        (rs, w') \<Rightarrow>
          (let passed = length (filter ValidationResult.success rs);
               failed = length rs - passed;
               overall = list_all (\<lambda>r. ValidationResult.success r \<or> \<not> required (check r)) rs
           in (\<lparr> overallSuccess = overall, totalChecks = length rs, passedChecks = passed,
                 failedChecks = failed, results = rs,
                 recommendations = generateRecommendations rs \<rparr>, w')))"

text \<open>
  What the specification calls running the checks in list order: every check of a list
  is run, each in the state the one before left.
\<close>

fun runInOrder ::
  "(string \<Rightarrow> nat \<Rightarrow> 'w \<Rightarrow> ExecOutcome \<times> 'w) \<Rightarrow> ValidationCheck list \<Rightarrow> 'w
     \<Rightarrow> ValidationResult list \<times> 'w" where
  "runInOrder sh [] w = ([], w)"
| "runInOrder sh (chk # chks) w =
     (case runValidationCheck sh chk w of
        (result, w') \<Rightarrow> (case runInOrder sh chks w' of (rs, w'') \<Rightarrow> (result # rs, w'')))"


section \<open>Parsing compiler output (parseTypeScriptErrors, parseErrors)\<close>

subsection \<open>Regular expressions as the parsers use them\<close>











subsection \<open>The parser\<close>












subsection \<open>Formatting, as the specification's grammar writes a diagnostic\<close>




section \<open>Notions and inputs used to state the properties\<close>

text \<open>Shells for the validation engine: one on which every command succeeds, and one
  on which the compiler fails; the second counts the commands it has run.\<close>

definition allPass :: "string \<Rightarrow> nat \<Rightarrow> unit \<Rightarrow> ExecOutcome \<times> unit" where
  "allPass cmd ms w = (Exited [], w)"

definition tscFails :: "string \<Rightarrow> nat \<Rightarrow> nat \<Rightarrow> ExecOutcome \<times> nat" where
  "tscFails cmd ms w =
     (if cmd = ''npx tsc --noEmit --skipLibCheck'' then Failed [] else Exited [], Suc w)"

text \<open>
  Counting the calls of a thunk: the state is paired with a counter that every call
  advances. \<open>succeeded\<close> reads an outcome: a rejection and an unsuccessful result both
  count as a failed attempt.
\<close>

definition counted ::
  "('w \<Rightarrow> (string + ExecutionResult) \<times> 'w) \<Rightarrow> nat \<times> 'w \<Rightarrow> (string + ExecutionResult) \<times> (nat \<times> 'w)" where
  "counted fn = (\<lambda>(calls, w). case fn w of (outcome, w') \<Rightarrow> (outcome, (Suc calls, w')))"

definition succeeded :: "string + ExecutionResult \<Rightarrow> bool" where
  "succeeded outcome = (case outcome of Inl msg \<Rightarrow> False | Inr result \<Rightarrow> ExecutionResult.success result)"

definition countedPhase :: "'w ExecutionPhase \<Rightarrow> (nat \<times> 'w) ExecutionPhase" where
  "countedPhase phase =
     \<lparr> ExecutionPhase.name = ExecutionPhase.name phase, priority = priority phase,
       ExecutionPhase.timeout = ExecutionPhase.timeout phase, retries = retries phase,
       executeFunction = counted (executeFunction phase) \<rparr>"

text \<open>A thunk that always throws and adds ten to its state, in a phase with two retries.\<close>

definition throwing :: "nat \<Rightarrow> (string + ExecutionResult) \<times> nat" where
  "throwing w = (Inl ''boom'', w + 10)"

definition throwingPhase :: "nat ExecutionPhase" where
  "throwingPhase = \<lparr> ExecutionPhase.name = ''Syntax Fixes'', priority = 1,
     ExecutionPhase.timeout = 300, retries = 2, executeFunction = throwing \<rparr>"

text \<open>Whether a list of errors has an error of a given root cause.\<close>

definition hasCause :: "ErrorRootCause \<Rightarrow> AnalyzedError list \<Rightarrow> bool" where
  "hasCause rc errors = (filter (\<lambda>e. rootCause (category e) = rc) errors \<noteq> [])"

text \<open>An analyzed error of a given file and root cause.\<close>

definition anError :: "string \<Rightarrow> ErrorRootCause \<Rightarrow> AnalyzedError" where
  "anError f rc = \<lparr> file_path = f, line = 1, column = 1, code = ''TS0'',
     Diagnostic.message = ''m'', category = \<lparr> rootCause = rc, severity = ''error'' \<rparr>,
     AnalyzedError.priority = 1 \<rparr>"

text \<open>
  A project with a file in a subdirectory and a file of the same base name at the top,
  and the states it goes through when the file in the subdirectory is backed up
  (\<open>world1\<close>), rewritten by a fix routine (\<open>world2\<close>) and rolled back (\<open>world3\<close>).
  \<open>failingFix\<close> rewrites the file and throws; \<open>markerFix\<close> succeeds and leaves a file
  behind. The two orchestrators are built by the constructor, one from no options, one
  with \<open>rollbackOnFailure\<close> switched off.
\<close>

definition world0 :: world where
  "world0 = \<lparr> files = [''App.tsx'' \<mapsto> ''top'', ''src/App.tsx'' \<mapsto> ''old''],
     backupDir = None \<rparr>"

definition failingFix :: "world \<Rightarrow> (string + ExecutionResult) \<times> world" where
  "failingFix w = (Inl ''boom'', w\<lparr> files := (files w)(''src/App.tsx'' \<mapsto> ''new'') \<rparr>)"

definition failingPhase :: "world ExecutionPhase" where
  "failingPhase = \<lparr> ExecutionPhase.name = ''Syntax Fixes'', priority = 1,
     ExecutionPhase.timeout = 300, retries = 2, executeFunction = failingFix \<rparr>"



definition tscOk :: "world \<Rightarrow> ExecOutcome" where
  "tscOk w = Exited []"

definition orchDefault :: orchestrator where
  "orchDefault = newOrchestrator emptyPartial ''backups''"


definition world1 :: world where
  "world1 = \<lparr> files = [''App.tsx'' \<mapsto> ''top'', ''src/App.tsx'' \<mapsto> ''old''],
     backupDir = Some [(''App.tsx'', ''old'')] \<rparr>"

definition world2 :: world where
  "world2 = \<lparr> files = [''App.tsx'' \<mapsto> ''top'', ''src/App.tsx'' \<mapsto> ''new''],
     backupDir = Some [(''App.tsx'', ''old'')] \<rparr>"

definition world3 :: world where
  "world3 = \<lparr> files = [''App.tsx'' \<mapsto> ''old'', ''src/App.tsx'' \<mapsto> ''new''],
     backupDir = Some [(''App.tsx'', ''old'')] \<rparr>"

text \<open>
  What a dry run reports: for each of the three planned root causes that has errors, one
  successful result saying how many errors of that kind would be fixed.
\<close>

definition dryRunReport :: "string \<Rightarrow> ErrorRootCause \<Rightarrow> AnalyzedError list \<Rightarrow> ExecutionResult list" where
  "dryRunReport kind rc errors =
     (if hasCause rc errors
      then [mkResult True (''Dry run: Would fix ''
              @ showNat (length (filter (\<lambda>e. rootCause (category e) = rc) errors))
              @ '' '' @ kind @ '' errors'')]
      else [])"

definition dryRunReports :: "AnalyzedError list \<Rightarrow> ExecutionResult list" where
  "dryRunReports errors =
     dryRunReport ''syntax'' Syntax errors @ dryRunReport ''import'' Import errors
       @ dryRunReport ''type'' Type errors"

text \<open>An orchestrator constructed with \<open>dryRun\<close> set.\<close>

definition orchDryRun :: orchestrator where
  "orchDryRun = newOrchestrator (emptyPartial\<lparr> dryRun_opt := Some True \<rparr>) ''backups''"











section \<open>Properties\<close>



subsection \<open>Validation\<close>

lemma recommendationsLoop_all_passed:
  "\<forall>r \<in> set rs. ValidationResult.success r \<Longrightarrow> recommendationsLoop rs recs = recs"
  by (induction rs arbitrary: recs) auto

lemma generateRecommendations_nonempty: "generateRecommendations rs \<noteq> []"
  by (simp add: generateRecommendations_def Let_def)

lemma generateRecommendations_all_passed:
  "\<forall>r \<in> set rs. ValidationResult.success r \<Longrightarrow> generateRecommendations rs = [recAllPassed]"
  by (simp add: generateRecommendations_def recommendationsLoop_all_passed)

lemma validate_fields:
  "validateLoop sh checks w = (rs, w') \<Longrightarrow>
     results (fst (validate sh checks w)) = rs \<and>
     totalChecks (fst (validate sh checks w)) = length rs \<and>
     passedChecks (fst (validate sh checks w)) = length (filter ValidationResult.success rs) \<and>
     failedChecks (fst (validate sh checks w)) =
       length rs - length (filter ValidationResult.success rs) \<and>
     recommendations (fst (validate sh checks w)) = generateRecommendations rs"
  by (simp add: validate_def Let_def)

text \<open>
  C10. In every summary that \<open>validate\<close> returns, the passed and the failed checks add up
  to the total, the total is the number of results, and the list of recommendations is
  not empty; when no check failed it is the one success message.
\<close>

theorem validate_summary_counts:
  "passedChecks (fst (validate sh checks w)) + failedChecks (fst (validate sh checks w))
     = totalChecks (fst (validate sh checks w)) \<and>
   totalChecks (fst (validate sh checks w)) = length (results (fst (validate sh checks w))) \<and>
   recommendations (fst (validate sh checks w)) \<noteq> [] \<and>
   ((\<forall>r \<in> set (results (fst (validate sh checks w))). ValidationResult.success r) \<longrightarrow>
      recommendations (fst (validate sh checks w)) = [recAllPassed])"
proof -
  obtain rs w' where l: "validateLoop sh checks w = (rs, w')"
    by (cases "validateLoop sh checks w")
  note f = validate_fields [OF l]
  have "length (filter ValidationResult.success rs) \<le> length rs"
    by (rule length_filter_le)
  with f generateRecommendations_nonempty [of rs] generateRecommendations_all_passed [of rs]
  show ?thesis by auto
qed

theorem validate_summary_counts_witness:
  "map ValidationResult.success (results (fst (validate allPass defaultChecks ())))
     = [True, True, True] \<and>
   totalChecks (fst (validate allPass defaultChecks ())) = 3 \<and>
   passedChecks (fst (validate allPass defaultChecks ())) = 3 \<and>
   failedChecks (fst (validate allPass defaultChecks ())) = 0 \<and>
   recommendations (fst (validate allPass defaultChecks ())) = [recAllPassed]"
proof -
  have l: "validateLoop allPass defaultChecks () =
     ([\<lparr> check = defaultChecks ! 0, ValidationResult.success = True \<rparr>,
       \<lparr> check = defaultChecks ! 1, ValidationResult.success = True \<rparr>,
       \<lparr> check = defaultChecks ! 2, ValidationResult.success = True \<rparr>], ())"
    by (simp add: defaultChecks_def allPass_def runValidationCheck_def)
  have r: "results (fst (validate allPass defaultChecks ())) =
     [\<lparr> check = defaultChecks ! 0, ValidationResult.success = True \<rparr>,
       \<lparr> check = defaultChecks ! 1, ValidationResult.success = True \<rparr>,
       \<lparr> check = defaultChecks ! 2, ValidationResult.success = True \<rparr>]"
    by (simp add: validate_def Let_def l)
  have p: "passedChecks (fst (validate allPass defaultChecks ())) = 3"
    by (simp add: validate_def Let_def l)
  from validate_summary_counts [of allPass defaultChecks "()"] r p show ?thesis
    by simp
qed

lemma validateLoop_prefix:
  "validateLoop sh checks w = (rs, w') \<Longrightarrow>
     map check rs = take (length rs) checks \<and>
     runInOrder sh (take (length rs) checks) w = (rs, w') \<and>
     (\<forall>i. Suc i < length rs \<longrightarrow>
        ValidationResult.success (rs ! i) \<or> \<not> required (check (rs ! i))) \<and>
     (length rs < length checks \<longrightarrow>
        rs \<noteq> [] \<and> \<not> ValidationResult.success (last rs) \<and> required (check (last rs)))"
proof (induction checks arbitrary: w rs w')
  case Nil
  then show ?case by simp
next
  case (Cons chk chks)
  obtain r w1 where r: "runValidationCheck sh chk w = (r, w1)"
    by (cases "runValidationCheck sh chk w")
  have chk: "check r = chk"
    using r by (auto simp: runValidationCheck_def split: prod.splits ExecOutcome.splits)
  show ?case
  proof (cases "\<not> ValidationResult.success r \<and> required chk")
    case True
    with Cons.prems r have "rs = [r]" "w' = w1" by auto
    with True r chk show ?thesis by simp
  next
    case False
    obtain rs2 w2 where l: "validateLoop sh chks w1 = (rs2, w2)"
      by (cases "validateLoop sh chks w1")
    with Cons.prems r False have eq: "rs = r # rs2" "w' = w2" by auto
    note ih = Cons.IH [OF l]
    have idx: "\<forall>i. Suc i < length rs \<longrightarrow>
        ValidationResult.success (rs ! i) \<or> \<not> required (check (rs ! i))"
    proof (intro allI impI)
      fix i assume "Suc i < length rs"
      then show "ValidationResult.success (rs ! i) \<or> \<not> required (check (rs ! i))"
        using ih False chk eq by (cases i) auto
    qed
    have lst: "length rs < length (chk # chks) \<longrightarrow>
        rs \<noteq> [] \<and> \<not> ValidationResult.success (last rs) \<and> required (check (last rs))"
      using ih eq by auto
    from ih eq chk r idx lst show ?thesis by simp
  qed
qed

text \<open>
  C7. \<open>validate\<close> runs the checks in list order and stops after the first required check
  that fails: the results are those of running a prefix of the list in order, no result
  but the last is a failed required check, a check is left out only after a failed
  required one, and \<open>overallSuccess\<close> holds exactly when every executed check passed or
  was not required.
\<close>

theorem validate_fail_fast:
  "validate sh checks w = (s, w') \<Longrightarrow>
     map check (results s) = take (length (results s)) checks \<and>
     runInOrder sh (take (length (results s)) checks) w = (results s, w') \<and>
     (\<forall>i. Suc i < length (results s) \<longrightarrow>
        ValidationResult.success (results s ! i) \<or> \<not> required (check (results s ! i))) \<and>
     (length (results s) < length checks \<longrightarrow>
        results s \<noteq> [] \<and> \<not> ValidationResult.success (last (results s)) \<and>
        required (check (last (results s)))) \<and>
     overallSuccess s =
       (\<forall>r \<in> set (results s). ValidationResult.success r \<or> \<not> required (check r))"
proof -
  assume v: "validate sh checks w = (s, w')"
  obtain rs w1 where l: "validateLoop sh checks w = (rs, w1)"
    by (cases "validateLoop sh checks w")
  from v l have s: "results s = rs" "w' = w1"
    "overallSuccess s = list_all (\<lambda>r. ValidationResult.success r \<or> \<not> required (check r)) rs"
    by (auto simp: validate_def Let_def)
  from validateLoop_prefix [OF l] s show ?thesis
    by (simp add: list_all_iff)
qed

theorem validate_fail_fast_witness:
  "validate tscFails defaultChecks 0 =
     (\<lparr> overallSuccess = False, totalChecks = 1, passedChecks = 0, failedChecks = 1,
        results = [\<lparr> check = hd defaultChecks, ValidationResult.success = False \<rparr>],
        recommendations = [recSyntax] \<rparr>, 1) \<and>
   runInOrder tscFails (take 1 defaultChecks) 0 =
     ([\<lparr> check = hd defaultChecks, ValidationResult.success = False \<rparr>], 1)"
proof -
  have v: "validate tscFails defaultChecks 0 =
     (\<lparr> overallSuccess = False, totalChecks = 1, passedChecks = 0, failedChecks = 1,
        results = [\<lparr> check = hd defaultChecks, ValidationResult.success = False \<rparr>],
        recommendations = [recSyntax] \<rparr>, 1)"
    by (simp add: validate_def defaultChecks_def tscFails_def runValidationCheck_def
          generateRecommendations_def)
  from validate_fail_fast [OF v] v show ?thesis by simp
qed

subsection \<open>Retries\<close>

lemma retryLoop_all_fail:
  assumes fails: "\<forall>w. \<not> succeeded (fst (executeFunction phase w))"
  shows "attempt \<le> retries phase + 1 \<Longrightarrow> 1 \<le> attempt \<Longrightarrow>
     snd (retryLoop phase attempt w) =
       ((\<lambda>w. snd (executeFunction phase w)) ^^ (retries phase + 2 - attempt)) w \<and>
     \<not> ExecutionResult.success (fst (retryLoop phase attempt w))"
proof (induction "retries phase + 1 - attempt" arbitrary: attempt w)
  case 0
  then have last: "attempt = retries phase + 1" by simp
  obtain outcome w' where ex: "executeFunction phase w = (outcome, w')"
    by (cases "executeFunction phase w")
  with fails have nf: "\<not> succeeded outcome" by (metis fst_conv)
  have pow: "retries phase + 2 - attempt = Suc 0" using last by simp
  have "retryLoop phase attempt w =
      (case outcome of Inr result \<Rightarrow> (result, w')
       | Inl msg \<Rightarrow> (mkResult False (ExecutionPhase.name phase @ '' failed: '' @ msg), w'))"
    using ex nf last
    by (subst retryLoop.simps)
       (simp add: executeWithTimeout_def succeeded_def split: sum.splits)
  then show ?case
    using ex nf last by (simp add: mkResult_def succeeded_def split: sum.splits)
next
  case (Suc k)
  then have notlast: "attempt \<noteq> retries phase + 1" "attempt \<le> retries phase + 1" by simp_all
  obtain outcome w' where ex: "executeFunction phase w = (outcome, w')"
    by (cases "executeFunction phase w")
  with fails have nf: "\<not> succeeded outcome" by (metis fst_conv)
  have step: "retryLoop phase attempt w = retryLoop phase (attempt + 1) w'"
    using ex nf notlast
    by (subst retryLoop.simps)
       (simp add: executeWithTimeout_def succeeded_def split: sum.splits)
  have k: "k = retries phase + 1 - (attempt + 1)" using Suc.hyps(2) by simp
  define m where "m = retries phase + 2 - (attempt + 1)"
  have ih: "snd (retryLoop phase (attempt + 1) w') =
       ((\<lambda>w. snd (executeFunction phase w)) ^^ m) w' \<and>
     \<not> ExecutionResult.success (fst (retryLoop phase (attempt + 1) w'))"
    unfolding m_def using Suc.hyps(1) [OF k] notlast by simp
  have pow: "retries phase + 2 - attempt = Suc m"
    unfolding m_def using notlast by simp
  have w': "w' = snd (executeFunction phase w)" using ex by simp
  have "((\<lambda>w. snd (executeFunction phase w)) ^^ Suc m) w =
        ((\<lambda>w. snd (executeFunction phase w)) ^^ m) w'"
    unfolding w' by (rule funpow_Suc_right [THEN fun_cong, simplified o_apply])
  with ih show ?case
    unfolding step pow by simp
qed

lemma counted_fails:
  "\<forall>w. \<not> succeeded (fst (fn w)) \<Longrightarrow> \<forall>cw. \<not> succeeded (fst (counted fn cw))"
  by (auto simp: counted_def split: prod.splits) (metis fst_conv)

lemma counted_funpow:
  "((\<lambda>cw. snd (counted fn cw)) ^^ k) (calls, w) = (calls + k, ((\<lambda>w. snd (fn w)) ^^ k) w)"
  by (induction k arbitrary: calls w) (auto simp: counted_def split: prod.splits)

text \<open>
  C2. A phase whose thunk fails on every call (it rejects, or its result is unsuccessful)
  is run exactly \<open>retries + 1\<close> times: the call counter reads \<open>retries + 1\<close> when the
  phase returns, each attempt starts in the state the one before left, and the result
  returned is a failure.
\<close>

theorem retry_bound:
  assumes "\<forall>w. \<not> succeeded (fst (executeFunction phase w))"
  shows "fst (snd (executePhaseWithRetry (countedPhase phase) (0, w))) = retries phase + 1 \<and>
         snd (executePhaseWithRetry phase w) =
           ((\<lambda>w. snd (executeFunction phase w)) ^^ (retries phase + 1)) w \<and>
         \<not> ExecutionResult.success (fst (executePhaseWithRetry phase w))"
proof -
  let ?cp = "countedPhase phase"
  have cf: "\<forall>cw. \<not> succeeded (fst (executeFunction ?cp cw))"
    using counted_fails [OF assms] by (simp add: countedPhase_def)
  have a: "snd (retryLoop ?cp 1 (0, w)) =
      ((\<lambda>cw. snd (executeFunction ?cp cw)) ^^ (retries ?cp + 2 - 1)) (0, w)"
    using retryLoop_all_fail [OF cf, of 1 "(0, w)"] by simp
  have a': "snd (retryLoop ?cp 1 (0, w)) =
      ((\<lambda>cw. snd (counted (executeFunction phase) cw)) ^^ (retries phase + 1)) (0, w)"
    using a by (simp add: countedPhase_def)
  have b: "snd (retryLoop phase 1 w) =
       ((\<lambda>w. snd (executeFunction phase w)) ^^ (retries phase + 2 - 1)) w \<and>
     \<not> ExecutionResult.success (fst (retryLoop phase 1 w))"
    using retryLoop_all_fail [OF assms, of 1 w] by simp
  have a'': "snd (retryLoop ?cp 1 (0, w)) =
      (0 + (retries phase + 1), ((\<lambda>w. snd (executeFunction phase w)) ^^ (retries phase + 1)) w)"
    using a' by (simp only: counted_funpow)
  have b': "snd (retryLoop phase 1 w) =
       ((\<lambda>w. snd (executeFunction phase w)) ^^ (retries phase + 1)) w"
    using b by (simp del: funpow.simps)
  from a'' b b' show ?thesis
    by (simp add: executePhaseWithRetry_def del: funpow.simps)
qed

theorem retry_bound_witness:
  "(\<forall>w. \<not> succeeded (fst (executeFunction throwingPhase w))) \<and>
   fst (snd (executePhaseWithRetry (countedPhase throwingPhase) (0, 0))) = 3 \<and>
   snd (executePhaseWithRetry throwingPhase 0) = 30 \<and>
   \<not> ExecutionResult.success (fst (executePhaseWithRetry throwingPhase 0))"
proof -
  have f: "\<forall>w. \<not> succeeded (fst (executeFunction throwingPhase w))"
    by (simp add: throwingPhase_def throwing_def succeeded_def)
  have r: "retries throwingPhase = 2" by (simp add: throwingPhase_def)
  have e: "(\<lambda>w. snd (executeFunction throwingPhase w)) = (\<lambda>w. w + 10)"
    by (simp add: throwingPhase_def throwing_def)
  from retry_bound [OF f, of 0] f show ?thesis
    by (simp add: r e numeral_3_eq_3)
qed

subsection \<open>Planning\<close>

lemma groupOf_addToGroup:
  "groupOf (addToGroup groups e) rc =
     (if rootCause (category e) = rc then groupOf groups rc @ [e] else groupOf groups rc)"
  by (simp add: groupOf_def addToGroup_def)

lemma groupOf_foldl:
  "groupOf (foldl addToGroup groups errors) rc =
     groupOf groups rc @ filter (\<lambda>e. rootCause (category e) = rc) errors"
  by (induction errors arbitrary: groups) (simp_all add: groupOf_addToGroup)

lemma groupOf_groupErrorsByRootCause:
  "groupOf (groupErrorsByRootCause errors) rc = filter (\<lambda>e. rootCause (category e) = rc) errors"
  by (simp add: groupErrorsByRootCause_def groupOf_foldl) (simp add: groupOf_def)

lemma createExecutionPhases_unsorted:
  "createExecutionPhases orch errors =
     sort_key priority
       ((if hasCause Syntax errors
          then [\<lparr> ExecutionPhase.name = ''Syntax Fixes'', priority = 1, ExecutionPhase.timeout = 300, retries = 2,
                  executeFunction = executeSyntaxFixes orch (filter (\<lambda>e. rootCause (category e) = Syntax) errors) \<rparr>]
          else []) @
         (if hasCause Import errors
          then [\<lparr> ExecutionPhase.name = ''Import Fixes'', priority = 2, ExecutionPhase.timeout = 180, retries = 1,
                  executeFunction = executeImportFixes orch (filter (\<lambda>e. rootCause (category e) = Import) errors) \<rparr>]
          else []) @
         (if hasCause Type errors
          then [\<lparr> ExecutionPhase.name = ''Type Fixes'', priority = 3, ExecutionPhase.timeout = 240, retries = 1,
                  executeFunction = executeTypeFixes orch (filter (\<lambda>e. rootCause (category e) = Type) errors) \<rparr>]
          else []))"
  by (simp only: createExecutionPhases_def Let_def groupOf_groupErrorsByRootCause hasCause_def)

lemma createExecutionPhases_eq:
  "createExecutionPhases orch errors =
       ((if hasCause Syntax errors
          then [\<lparr> ExecutionPhase.name = ''Syntax Fixes'', priority = 1, ExecutionPhase.timeout = 300, retries = 2,
                  executeFunction = executeSyntaxFixes orch (filter (\<lambda>e. rootCause (category e) = Syntax) errors) \<rparr>]
          else []) @
         (if hasCause Import errors
          then [\<lparr> ExecutionPhase.name = ''Import Fixes'', priority = 2, ExecutionPhase.timeout = 180, retries = 1,
                  executeFunction = executeImportFixes orch (filter (\<lambda>e. rootCause (category e) = Import) errors) \<rparr>]
          else []) @
         (if hasCause Type errors
          then [\<lparr> ExecutionPhase.name = ''Type Fixes'', priority = 3, ExecutionPhase.timeout = 240, retries = 1,
                  executeFunction = executeTypeFixes orch (filter (\<lambda>e. rootCause (category e) = Type) errors) \<rparr>]
          else []))"
  unfolding createExecutionPhases_unsorted
  by (rule sort_key_id_if_sorted) simp

text \<open>
  C3 (as the code has it). The planner emits one phase for each of the root causes
  Syntax, Import and Type that has an error, in that order, with priorities 1, 2 and 3.
  Which phases are emitted depends only on which root causes occur among the errors, not
  on their order. Errors of the root causes Unused and Other get no phase.
\<close>

theorem planner_phase_order:
  "map ExecutionPhase.name (createExecutionPhases orch errors :: 'w ExecutionPhase list) =
     (if hasCause Syntax errors then [''Syntax Fixes''] else []) @
     (if hasCause Import errors then [''Import Fixes''] else []) @
     (if hasCause Type errors then [''Type Fixes''] else []) \<and>
   map priority (createExecutionPhases orch errors :: 'w ExecutionPhase list) =
     (if hasCause Syntax errors then [1] else []) @
     (if hasCause Import errors then [2] else []) @
     (if hasCause Type errors then [3] else []) \<and>
   (hasCause rc errors \<longleftrightarrow> (\<exists>e \<in> set errors. rootCause (category e) = rc))"
  by (simp add: createExecutionPhases_eq hasCause_def filter_empty_conv)

theorem planner_phase_order_witness:
  "map ExecutionPhase.name
     (createExecutionPhases (newOrchestrator emptyPartial ''backups'')
        [anError ''a.ts'' Type, anError ''b.ts'' Syntax] :: world ExecutionPhase list) =
     [''Syntax Fixes'', ''Type Fixes'']"
proof -
  have h: "hasCause Syntax [anError ''a.ts'' Type, anError ''b.ts'' Syntax]"
    "\<not> hasCause Import [anError ''a.ts'' Type, anError ''b.ts'' Syntax]"
    "hasCause Type [anError ''a.ts'' Type, anError ''b.ts'' Syntax]"
    by (simp_all add: hasCause_def anError_def)
  from planner_phase_order [where 'w = world, of "newOrchestrator emptyPartial ''backups''"
      "[anError ''a.ts'' Type, anError ''b.ts'' Syntax]" Syntax] h
  show ?thesis by simp
qed

text \<open>
  C3 as stated fails: errors of the root causes Unused, Syntax and Type, in that order,
  give two phases, not three; nothing is planned for Unused.
\<close>

theorem planner_unused_counterexample:
  "map ExecutionPhase.name
     (createExecutionPhases (newOrchestrator emptyPartial ''backups'')
        [anError ''a.ts'' Unused, anError ''b.ts'' Syntax, anError ''c.ts'' Type]
      :: world ExecutionPhase list) =
     [''Syntax Fixes'', ''Type Fixes'']"
  by (simp add: createExecutionPhases_eq hasCause_def anError_def)

subsection \<open>The run\<close>


lemma backupStep_Inr: "\<exists>r. fst (backupStep orch errors w) = Inr r"
  by (simp add: backupStep_def executePhase_def createBackup_def Let_def split: prod.splits)


lemma config_orchDefault:
  "config orchDefault = \<lparr> timeoutSeconds = 600, maxRetries = 2, backupEnabled = True,
     validationEnabled = True, rollbackOnFailure = True, continueOnValidationFailure = False,
     dryRun = False \<rparr>"
  by (simp add: orchDefault_def newOrchestrator_def mergeConfig_def emptyPartial_def spread_def)


lemma basename_src_App: "basename ''src/App.tsx'' = ''App.tsx''"
  by (simp add: basename_def)

lemma backupStep_world0:
  "dryRun (config orch) = False \<Longrightarrow> backupEnabled (config orch) = True \<Longrightarrow>
   snd (backupStep orch [anError ''src/App.tsx'' Syntax] world0) = world1"
  by (simp add: backupStep_def executePhase_def createBackup_def Let_def anError_def
        world0_def world1_def mkdirBackup_def fileExists_def copyToBackup_def basename_src_App)

lemma failingFix_world1: "failingFix world1 = (Inl ''boom'', world2)"
  by (simp add: failingFix_def world1_def world2_def)

lemma failingFix_world2: "failingFix world2 = (Inl ''boom'', world2)"
  by (simp add: failingFix_def world2_def)

lemma failingPhase_world1:
  "executePhaseWithRetry failingPhase world1 =
     (mkResult False ''Syntax Fixes failed: boom'', world2)"
  by (simp add: executePhaseWithRetry_def retryLoop.simps failingPhase_def
        executeWithTimeout_def failingFix_world1 failingFix_world2)

lemma performRollback_world2: "performRollback world2 = world3"
  by (simp add: performRollback_def directoryExists_def world2_def world3_def fileExists_def
        fun_upd_twist)

lemma runPhases_failing_world1:
  "continueOnValidationFailure cfg = False \<Longrightarrow>
   runPhases cfg (failingPhase # phases) history world1 =
     (Inl ''Phase Syntax Fixes failed: Syntax Fixes failed: boom'',
      history @ [mkResult False ''Syntax Fixes failed: boom''], world2)"
  by (simp add: failingPhase_world1) (simp add: mkResult_def failingPhase_def)

lemma tryBlock_failing:
  assumes "dryRun (config orch) = False" "backupEnabled (config orch) = True"
    "continueOnValidationFailure (config orch) = False"
  shows "tryBlock (\<lambda>es. failingPhase # phases) tsc orch [anError ''src/App.tsx'' Syntax] world0 =
     (Inl ''Phase Syntax Fixes failed: Syntax Fixes failed: boom'',
      orch\<lparr> executionHistory := executionHistory orch
               @ [mkResult False ''Syntax Fixes failed: boom''] \<rparr>, world2)"
proof -
  obtain b where b: "backupStep orch [anError ''src/App.tsx'' Syntax] world0 = (Inr b, world1)"
    using backupStep_Inr [of orch "[anError ''src/App.tsx'' Syntax]" world0]
      backupStep_world0 [OF assms(1,2)]
    by (cases "backupStep orch [anError ''src/App.tsx'' Syntax] world0") auto
  show ?thesis
    by (subst tryBlock_def, subst b)
       (simp add: runPhases_failing_world1 [OF assms(3)] del: runPhases.simps)
qed




text \<open>
  C1 fails on the code. A file in a subdirectory is backed up under its base name and
  the rollback copies that entry to the file of that name in the working directory:
  after the failed run \<open>src/App.tsx\<close> still has the content the fix routine wrote, and
  the unrelated \<open>App.tsx\<close> has been overwritten with the old content of \<open>src/App.tsx\<close>.
\<close>

theorem rollback_restores_wrong_path:
  "files world0 ''src/App.tsx'' = Some ''old'' \<and> files world0 ''App.tsx'' = Some ''top'' \<and>
   executeOrchestrationWith (\<lambda>es. [failingPhase]) tscOk orchDefault
     [anError ''src/App.tsx'' Syntax] world0 =
     (mkResult False
        ''Orchestration failed: Phase Syntax Fixes failed: Syntax Fixes failed: boom'',
      orchDefault\<lparr> executionHistory := [mkResult False ''Syntax Fixes failed: boom''] \<rparr>,
      world3) \<and>
   files world3 ''src/App.tsx'' = Some ''new'' \<and> files world3 ''App.tsx'' = Some ''old''"
proof -
  have c: "dryRun (config orchDefault) = False" "backupEnabled (config orchDefault) = True"
    "continueOnValidationFailure (config orchDefault) = False"
    "rollbackOnFailure (config orchDefault)"
    by (simp_all add: config_orchDefault)
  have h: "executionHistory orchDefault = []"
    by (simp add: orchDefault_def newOrchestrator_def)
  show ?thesis
    using c(2,4)
    by (simp add: executeOrchestrationWith_def tryBlock_failing [OF c(1,2,3)] h
          performRollback_world2)
       (simp add: world0_def world3_def)
qed

lemma createExecutionPhases_Nil: "createExecutionPhases orch [] = []"
  by (simp add: createExecutionPhases_eq hasCause_def)

lemma validationStep_ok: "\<exists>r. validationStep tsc orch w = (Inr r, w)"
  by (simp add: validationStep_def executePhase_def performFinalValidation_def Let_def
        split: ExecOutcome.splits)

lemma showNat_0: "showNat 0 = ''0''"
  by (simp add: showNat.simps digitChar_def)

lemma backupStep_Nil:
  "snd (backupStep orch [] w) =
     (if backupEnabled (config orch) \<and> \<not> dryRun (config orch) then mkdirBackup w else w)"
  by (simp add: backupStep_def executePhase_def createBackup_def)

lemma empty_run_lemma:
  "executeOrchestration tsc (newOrchestrator p bp) [] w =
     ((mkResult True ''Orchestration completed successfully. Fixed 0 errors'')
        \<lparr> fixedCount := Some 0 \<rparr>,
      newOrchestrator p bp,
      if backupEnabled (mergeConfig p) \<and> \<not> dryRun (mergeConfig p) then mkdirBackup w else w)"
proof -
  let ?orch = "newOrchestrator p bp"
  let ?w1 = "if backupEnabled (mergeConfig p) \<and> \<not> dryRun (mergeConfig p)
             then mkdirBackup w else w"
  have cfg: "config ?orch = mergeConfig p" and h: "executionHistory ?orch = []"
    by (simp_all add: newOrchestrator_def)
  obtain b where b: "backupStep ?orch [] w = (Inr b, ?w1)"
    using backupStep_Inr [of ?orch "[]" w] backupStep_Nil [of ?orch w] cfg
    by (cases "backupStep ?orch [] w") auto
  obtain v where v: "validationStep tsc ?orch ?w1 = (Inr v, ?w1)"
    using validationStep_ok by blast
  have o: "?orch\<lparr> executionHistory := [] \<rparr> = ?orch"
    by (simp add: newOrchestrator_def)
  have "tryBlock (createExecutionPhases ?orch) tsc ?orch [] w =
      (Inr ((mkResult True ''Orchestration completed successfully. Fixed 0 errors'')
        \<lparr> fixedCount := Some 0 \<rparr>), ?orch, ?w1)"
    by (subst tryBlock_def, subst b)
       (simp add: createExecutionPhases_Nil h v totalFixed_def showNat_0 o
          del: runPhases.simps(2))
  then show ?thesis
    by (simp add: executeOrchestration_def executeOrchestrationWith_def)
qed

text \<open>
  C5 (as the code has it). A run of a freshly constructed orchestrator on no errors
  succeeds with \<open>fixedCount = 0\<close> and an empty history, changes no project file and writes
  no backup file. When backups are enabled and the run is not a dry run it does create
  the backup directory (an existing one keeps its entries); otherwise the world is
  unchanged.
\<close>

theorem empty_run:
  "executeOrchestration tsc (newOrchestrator p bp) [] w =
     ((mkResult True ''Orchestration completed successfully. Fixed 0 errors'')
        \<lparr> fixedCount := Some 0 \<rparr>,
      newOrchestrator p bp,
      if backupEnabled (mergeConfig p) \<and> \<not> dryRun (mergeConfig p) then mkdirBackup w else w) \<and>
   files (mkdirBackup w) = files w \<and>
   backupDir (mkdirBackup w) = Some (case backupDir w of None \<Rightarrow> [] | Some es \<Rightarrow> es)"
  by (simp add: empty_run_lemma) (simp add: mkdirBackup_def)

theorem empty_run_witness:
  "executeOrchestration tscOk orchDefault [] world0 =
     ((mkResult True ''Orchestration completed successfully. Fixed 0 errors'')
        \<lparr> fixedCount := Some 0 \<rparr>,
      orchDefault, world0\<lparr> backupDir := Some [] \<rparr>)"
  using empty_run [of tscOk emptyPartial "''backups''" world0]
  by (simp add: orchDefault_def mergeConfig_def emptyPartial_def spread_def mkdirBackup_def
        world0_def)

text \<open>
  C5 as stated fails: with the default options the run on no errors creates the backup
  directory, which did not exist before.
\<close>

theorem empty_run_creates_directory_counterexample:
  "backupDir world0 = None \<and>
   backupDir (snd (snd (executeOrchestration tscOk orchDefault [] world0))) = Some []"
  by (simp add: orchDefault_def empty_run_lemma)
     (simp add: mergeConfig_def emptyPartial_def spread_def mkdirBackup_def world0_def)

lemma executePhaseWithRetry_first_success:
  "executeFunction phase w = (Inr result, w') \<Longrightarrow> ExecutionResult.success result \<Longrightarrow>
   executePhaseWithRetry phase w = (result, w')"
  unfolding executePhaseWithRetry_def
  by (subst retryLoop.simps) (simp add: executeWithTimeout_def)

lemma runPhases_success:
  "executeFunction phase w = (Inr result, w') \<Longrightarrow> ExecutionResult.success result \<Longrightarrow>
   runPhases cfg (phase # phases) history w = runPhases cfg phases (history @ [result]) w'"
  by (simp add: executePhaseWithRetry_first_success)

lemma simulatedFix_dry:
  "dryRun (config orch) \<Longrightarrow>
   simulatedFix orch kind tenths errors w =
     (Inr (mkResult True (''Dry run: Would fix '' @ showNat (length errors) @ '' '' @ kind
        @ '' errors'')), w)"
  by (simp add: simulatedFix_def)

lemma success_mkResult: "ExecutionResult.success (mkResult ok msg) = ok"
  by (simp add: mkResult_def)

lemma fixedCount_mkResult: "fixedCount (mkResult ok msg) = None"
  by (simp add: mkResult_def)

lemma runPhases_dry:
  assumes "dryRun (config orch)"
  shows "runPhases cfg (createExecutionPhases orch errors) history w =
           (Inr (), history @ dryRunReports errors, w)"
proof -
  have s: "\<And>phases h. hasCause Syntax errors \<Longrightarrow>
      runPhases cfg (\<lparr> ExecutionPhase.name = ''Syntax Fixes'', priority = 1,
          ExecutionPhase.timeout = 300, retries = 2,
          executeFunction = executeSyntaxFixes orch
            (filter (\<lambda>e. rootCause (category e) = Syntax) errors) \<rparr> # phases) h w =
      runPhases cfg phases (h @ dryRunReport ''syntax'' Syntax errors) w"
    by (subst runPhases_success)
       (simp_all add: executeSyntaxFixes_def simulatedFix_dry [OF assms] success_mkResult
          dryRunReport_def del: runPhases.simps)
  have i: "\<And>phases h. hasCause Import errors \<Longrightarrow>
      runPhases cfg (\<lparr> ExecutionPhase.name = ''Import Fixes'', priority = 2,
          ExecutionPhase.timeout = 180, retries = 1,
          executeFunction = executeImportFixes orch
            (filter (\<lambda>e. rootCause (category e) = Import) errors) \<rparr> # phases) h w =
      runPhases cfg phases (h @ dryRunReport ''import'' Import errors) w"
    by (subst runPhases_success)
       (simp_all add: executeImportFixes_def simulatedFix_dry [OF assms] success_mkResult
          dryRunReport_def del: runPhases.simps)
  have t: "\<And>phases h. hasCause Type errors \<Longrightarrow>
      runPhases cfg (\<lparr> ExecutionPhase.name = ''Type Fixes'', priority = 3,
          ExecutionPhase.timeout = 240, retries = 1,
          executeFunction = executeTypeFixes orch
            (filter (\<lambda>e. rootCause (category e) = Type) errors) \<rparr> # phases) h w =
      runPhases cfg phases (h @ dryRunReport ''type'' Type errors) w"
    by (subst runPhases_success)
       (simp_all add: executeTypeFixes_def simulatedFix_dry [OF assms] success_mkResult
          dryRunReport_def del: runPhases.simps)
  have n: "\<And>rc kind. \<not> hasCause rc errors \<Longrightarrow> dryRunReport kind rc errors = []"
    by (simp add: dryRunReport_def)
  show ?thesis
    unfolding createExecutionPhases_eq dryRunReports_def
    by (cases "hasCause Syntax errors"; cases "hasCause Import errors";
        cases "hasCause Type errors")
       (simp_all add: s i t n del: runPhases.simps(2) One_nat_def)
qed

lemma foldl_fixed_shift:
  "foldl (\<lambda>sum result. sum + (case fixedCount result of None \<Rightarrow> 0 | Some n \<Rightarrow> n)) a ys
     = a + totalFixed ys"
proof (induction ys arbitrary: a)
  case Nil
  show ?case by (simp add: totalFixed_def)
next
  case (Cons y ys)
  let ?g = "case fixedCount y of None \<Rightarrow> 0 | Some n \<Rightarrow> n"
  have "totalFixed (y # ys) = ?g + totalFixed ys"
    unfolding totalFixed_def foldl_Cons
    using Cons.IH [of "0 + ?g"] unfolding totalFixed_def by simp
  then show ?case
    unfolding foldl_Cons using Cons.IH [of "a + ?g"] by simp
qed

lemma totalFixed_append:
  "totalFixed (xs @ ys) = totalFixed xs + totalFixed ys"
  unfolding totalFixed_def [of "xs @ ys"] foldl_append
  unfolding totalFixed_def [of xs, symmetric]
  by (rule foldl_fixed_shift)

lemma totalFixed_dryRunReports: "totalFixed (dryRunReports errors) = 0"
  by (simp add: dryRunReports_def dryRunReport_def totalFixed_def fixedCount_mkResult)

lemma backupStep_dry:
  "dryRun (config orch) \<Longrightarrow> snd (backupStep orch errors w) = w"
  by (simp add: backupStep_def executePhase_def createBackup_def Let_def)

text \<open>
  C8. With \<open>dryRun\<close> set, a full run leaves the world as it was: every project file and
  the backup directory are unchanged (no backup is created). The run succeeds and the
  history gains the reports of what would have been fixed.
\<close>

theorem dry_run_frame:
  assumes "dryRun (config orch)"
  shows "executeOrchestration tsc orch errors w =
     ((mkResult True (''Orchestration completed successfully. Fixed ''
          @ showNat (totalFixed (executionHistory orch)) @ '' errors''))
        \<lparr> fixedCount := Some (totalFixed (executionHistory orch)) \<rparr>,
      orch\<lparr> executionHistory := executionHistory orch @ dryRunReports errors \<rparr>,
      w)"
proof -
  obtain b where b: "backupStep orch errors w = (Inr b, w)"
    using backupStep_Inr [of orch errors w] backupStep_dry [OF assms, of errors w]
    by (cases "backupStep orch errors w") auto
  obtain v where v: "validationStep tsc orch w = (Inr v, w)"
    using validationStep_ok by blast
  have "tryBlock (createExecutionPhases orch) tsc orch errors w =
     (Inr ((mkResult True (''Orchestration completed successfully. Fixed ''
          @ showNat (totalFixed (executionHistory orch)) @ '' errors''))
        \<lparr> fixedCount := Some (totalFixed (executionHistory orch)) \<rparr>),
      orch\<lparr> executionHistory := executionHistory orch @ dryRunReports errors \<rparr>,
      w)"
    by (subst tryBlock_def, subst b)
       (simp add: runPhases_dry [OF assms] v totalFixed_append totalFixed_dryRunReports)
  then show ?thesis
    by (simp add: executeOrchestration_def executeOrchestrationWith_def)
qed

theorem dry_run_frame_witness:
  "dryRun (config orchDryRun) \<and>
   executeOrchestration tscOk orchDryRun
     [anError ''src/App.tsx'' Type, anError ''src/App.tsx'' Syntax, anError ''x.ts'' Type] world0 =
     ((mkResult True ''Orchestration completed successfully. Fixed 0 errors'')
        \<lparr> fixedCount := Some 0 \<rparr>,
      orchDryRun\<lparr> executionHistory :=
        [mkResult True ''Dry run: Would fix 1 syntax errors'',
         mkResult True ''Dry run: Would fix 2 type errors''] \<rparr>,
      world0)"
proof -
  have d: "dryRun (config orchDryRun)"
    by (simp add: orchDryRun_def newOrchestrator_def mergeConfig_def spread_def)
  have h: "executionHistory orchDryRun = []"
    by (simp add: orchDryRun_def newOrchestrator_def)
  have r: "dryRunReports
      [anError ''src/App.tsx'' Type, anError ''src/App.tsx'' Syntax, anError ''x.ts'' Type] =
        [mkResult True ''Dry run: Would fix 1 syntax errors'',
         mkResult True ''Dry run: Would fix 2 type errors'']"
    by (simp add: dryRunReports_def dryRunReport_def hasCause_def anError_def showNat.simps
          digitChar_def)
  from dry_run_frame [OF d, of tscOk
      "[anError ''src/App.tsx'' Type, anError ''src/App.tsx'' Syntax, anError ''x.ts'' Type]" world0]
    d show ?thesis
    by (simp add: h r totalFixed_def showNat_0)
qed

subsection \<open>Parsing\<close>
























































end
